theory Spec2Isabelle
  imports Complex_Main "HOL-Library.Char_ord" "HOL-Library.List_Lexorder"
begin

section \<open>Python values, exceptions and containers\<close>

text \<open>
  Python floats and ints are idealised as exact rationals (every finite float is one);
  rounding of float arithmetic is not modelled. A dict is a map, a list a list.
  Every subscript of the source that can raise is a fallible lookup here.
\<close>

datatype error = KeyError | IndexError | TypeError | PulpError

definition bind_err :: "error + 'a \<Rightarrow> ('a \<Rightarrow> error + 'b) \<Rightarrow> error + 'b" where
  "bind_err m f = (case m of Inl e \<Rightarrow> Inl e | Inr x \<Rightarrow> f x)"

definition dict_get :: "('k \<rightharpoonup> 'v) \<Rightarrow> 'k \<Rightarrow> error + 'v" where
  "dict_get m k = (case m k of None \<Rightarrow> Inl KeyError | Some v \<Rightarrow> Inr v)"

definition list_get :: "'a list \<Rightarrow> nat \<Rightarrow> error + 'a" where
  "list_get xs i = (if i < length xs then Inr (xs ! i) else Inl IndexError)"

text \<open>A loop or comprehension whose body may raise: the first exception ends it.\<close>

fun traverse :: "('a \<Rightarrow> error + 'b) \<Rightarrow> 'a list \<Rightarrow> error + 'b list" where
  "traverse f [] = Inr []"
| "traverse f (x # xs) =
     (case f x of
        Inl e \<Rightarrow> Inl e
      | Inr y \<Rightarrow> (case traverse f xs of Inl e \<Rightarrow> Inl e | Inr ys \<Rightarrow> Inr (y # ys)))"

definition py_range :: "int \<Rightarrow> nat list" where
  "py_range n = [0..<nat n]"

definition digit_char :: "nat \<Rightarrow> char" where
  "digit_char n = ''0123456789'' ! (n mod 10)"

function str_nat :: "nat \<Rightarrow> string" where
  "str_nat n = (if n < 10 then [digit_char n] else str_nat (n div 10) @ [digit_char n])"
  by pat_completeness auto
termination
  by (relation "measure id") auto

section \<open>The pulp modelling layer\<close>

text \<open>
  The part of the pulp library the two formulations use. A variable object is identified
  by \<open>ident\<close> (Python compares and hashes variables by object identity, never by name).
  pulp replaces each of the characters \<open>-+[] ->/\<close> in a variable name by an underscore,
  stores a Binary variable as an Integer one with bounds 0 and 1, keeps an affine
  expression as an insertion-ordered dict from variable to coefficient plus a constant,
  and turns a comparison \<open>a <= b\<close> into the constraint \<open>a - b <= 0\<close>.
\<close>

datatype LpCategory = LpContinuous | LpInteger

datatype cat_arg = Continuous | Integer | Binary

record 'k LpVariable =
  ident :: 'k
  vname :: string
  lowBound :: "rat option"
  upBound :: "rat option"
  cat :: LpCategory

definition illegal_chars :: string where
  "illegal_chars = ''-+[] ->/''"

definition sanitize :: "string \<Rightarrow> string" where
  "sanitize s = map (\<lambda>c. if c \<in> set illegal_chars then CHR ''_'' else c) s"

definition new_LpVariable ::
  "'k \<Rightarrow> string \<Rightarrow> rat option \<Rightarrow> rat option \<Rightarrow> cat_arg \<Rightarrow> 'k LpVariable" where
  "new_LpVariable k nm lo up c =
     (case c of
        Binary \<Rightarrow> \<lparr>ident = k, vname = sanitize nm, lowBound = Some 0, upBound = Some 1,
                   cat = LpInteger\<rparr>
      | Integer \<Rightarrow> \<lparr>ident = k, vname = sanitize nm, lowBound = lo, upBound = up,
                    cat = LpInteger\<rparr>
      | Continuous \<Rightarrow> \<lparr>ident = k, vname = sanitize nm, lowBound = lo, upBound = up,
                       cat = LpContinuous\<rparr>)"

record 'k LpAffineExpression =
  terms :: "('k LpVariable \<times> rat) list"
  const_part :: rat

definition empty_expr :: "'k LpAffineExpression" where
  "empty_expr = \<lparr>terms = [], const_part = 0\<rparr>"

definition of_var :: "'k LpVariable \<Rightarrow> 'k LpAffineExpression" where
  "of_var v = \<lparr>terms = [(v, 1)], const_part = 0\<rparr>"

fun addterm :: "'v \<Rightarrow> rat \<Rightarrow> ('v \<times> rat) list \<Rightarrow> ('v \<times> rat) list" where
  "addterm v c [] = [(v, c)]"
| "addterm v c ((u, a) # ts) =
     (if u = v then (u, a + c) # ts else (u, a) # addterm v c ts)"

definition addInPlace ::
  "'k LpAffineExpression \<Rightarrow> 'k LpAffineExpression \<Rightarrow> 'k LpAffineExpression" where
  "addInPlace e other =
     \<lparr>terms = fold (\<lambda>(v, x) ts. addterm v x ts) (terms other) (terms e),
      const_part = const_part e + const_part other\<rparr>"

definition lpSum :: "'k LpAffineExpression list \<Rightarrow> 'k LpAffineExpression" where
  "lpSum vector = fold (\<lambda>other e. addInPlace e other) vector empty_expr"

text \<open>Multiplying by the number 0 gives the empty expression: no term is kept.\<close>

definition mul_num :: "'k LpAffineExpression \<Rightarrow> rat \<Rightarrow> 'k LpAffineExpression" where
  "mul_num e other =
     (if other \<noteq> 0
      then \<lparr>terms = map (\<lambda>(v, x). (v, other * x)) (terms e), const_part = const_part e * other\<rparr>
      else empty_expr)"

definition sub_expr ::
  "'k LpAffineExpression \<Rightarrow> 'k LpAffineExpression \<Rightarrow> 'k LpAffineExpression" where
  "sub_expr e other =
     \<lparr>terms = fold (\<lambda>(v, x) ts. addterm v (- x) ts) (terms other) (terms e),
      const_part = const_part e - const_part other\<rparr>"

definition sub_num :: "'k LpAffineExpression \<Rightarrow> rat \<Rightarrow> 'k LpAffineExpression" where
  "sub_num e other = e\<lparr>const_part := const_part e - other\<rparr>"

datatype LpConstraintSense = LpConstraintLE | LpConstraintEQ | LpConstraintGE

record 'k LpConstraint =
  expr :: "'k LpAffineExpression"
  sense :: LpConstraintSense

definition le_expr :: "'k LpAffineExpression \<Rightarrow> 'k LpAffineExpression \<Rightarrow> 'k LpConstraint" where
  "le_expr a b = \<lparr>expr = sub_expr a b, sense = LpConstraintLE\<rparr>"

definition ge_expr :: "'k LpAffineExpression \<Rightarrow> 'k LpAffineExpression \<Rightarrow> 'k LpConstraint" where
  "ge_expr a b = \<lparr>expr = sub_expr a b, sense = LpConstraintGE\<rparr>"

definition eq_num :: "'k LpAffineExpression \<Rightarrow> rat \<Rightarrow> 'k LpConstraint" where
  "eq_num a b = \<lparr>expr = sub_num a b, sense = LpConstraintEQ\<rparr>"

text \<open>
  The constraints of a problem are an ordered dict from name to constraint. A constraint
  added without a name gets the next unused name \<open>_C1\<close>, \<open>_C2\<close>, ...; in a constraint
  name pulp replaces each of \<open>-+[]\<close> and the space by an underscore, and adding a name
  that is already there raises PulpError.
\<close>

datatype cname = Named string | Auto nat

record 'k LpProblem =
  objective :: "'k LpAffineExpression"
  constraints :: "(cname \<times> 'k LpConstraint) list"

definition sanitize_cname :: "string \<Rightarrow> string" where
  "sanitize_cname s = map (\<lambda>c. if c \<in> set ''-+[] '' then CHR ''_'' else c) s"

definition add_unnamed :: "'k LpProblem \<Rightarrow> 'k LpConstraint \<Rightarrow> 'k LpProblem" where
  "add_unnamed p c = p\<lparr>constraints := constraints p @ [(Auto (Suc (length (constraints p))), c)]\<rparr>"

definition add_named :: "'k LpProblem \<Rightarrow> 'k LpConstraint \<times> string \<Rightarrow> error + 'k LpProblem" where
  "add_named p cn =
     (case cn of (c, nm) \<Rightarrow>
        if Named (sanitize_cname nm) \<in> fst ` set (constraints p) then Inl PulpError
        else Inr (p\<lparr>constraints := constraints p @ [(Named (sanitize_cname nm), c)]\<rparr>))"

text \<open>
  A loop whose body builds one named constraint and adds it to the problem: the body's
  lookups and the addition happen in turn, and the first exception ends the loop.
\<close>

fun add_loop ::
  "('a \<Rightarrow> error + ('k LpConstraint \<times> string)) \<Rightarrow> 'k LpProblem \<Rightarrow> 'a list \<Rightarrow> error + 'k LpProblem" where
  "add_loop f p [] = Inr p"
| "add_loop f p (x # xs) =
     (case f x of
        Inl e \<Rightarrow> Inl e
      | Inr cn \<Rightarrow> (case add_named p cn of Inl e \<Rightarrow> Inl e | Inr p' \<Rightarrow> add_loop f p' xs))"

subsection \<open>What a model means\<close>

text \<open>
  An assignment gives every variable object a value. It is feasible for a problem when
  it satisfies every constraint and, for every variable that occurs in the objective or
  in a constraint, the variable's bounds and integrality.
\<close>

definition value_expr :: "('k \<Rightarrow> rat) \<Rightarrow> 'k LpAffineExpression \<Rightarrow> rat" where
  "value_expr \<sigma> e = (\<Sum>(v, x) \<leftarrow> terms e. x * \<sigma> (ident v)) + const_part e"

definition sat :: "('k \<Rightarrow> rat) \<Rightarrow> 'k LpConstraint \<Rightarrow> bool" where
  "sat \<sigma> c =
     (case sense c of
        LpConstraintLE \<Rightarrow> value_expr \<sigma> (expr c) \<le> 0
      | LpConstraintEQ \<Rightarrow> value_expr \<sigma> (expr c) = 0
      | LpConstraintGE \<Rightarrow> value_expr \<sigma> (expr c) \<ge> 0)"

definition var_ok :: "('k \<Rightarrow> rat) \<Rightarrow> 'k LpVariable \<Rightarrow> bool" where
  "var_ok \<sigma> v =
     ((case lowBound v of None \<Rightarrow> True | Some l \<Rightarrow> l \<le> \<sigma> (ident v)) \<and>
      (case upBound v of None \<Rightarrow> True | Some u \<Rightarrow> \<sigma> (ident v) \<le> u) \<and>
      (case cat v of LpContinuous \<Rightarrow> True
                   | LpInteger \<Rightarrow> of_int (floor (\<sigma> (ident v))) = \<sigma> (ident v)))"

definition problem_vars :: "'k LpProblem \<Rightarrow> 'k LpVariable list" where
  "problem_vars p =
     concat (map (\<lambda>(n, c). map fst (terms (expr c))) (constraints p)) @
     map fst (terms (objective p))"

definition feasible :: "'k LpProblem \<Rightarrow> ('k \<Rightarrow> rat) \<Rightarrow> bool" where
  "feasible p \<sigma> =
     (list_all (\<lambda>(n, c). sat \<sigma> c) (constraints p) \<and> list_all (var_ok \<sigma>) (problem_vars p))"

definition optimal :: "'k LpProblem \<Rightarrow> ('k \<Rightarrow> rat) \<Rightarrow> bool" where
  "optimal p \<sigma> =
     (feasible p \<sigma> \<and>
      (\<forall>\<tau>. feasible p \<tau> \<longrightarrow> value_expr \<sigma> (objective p) \<le> value_expr \<tau> (objective p)))"

text \<open>
  \<open>problem.variables()\<close>: the variables in the order the problem met them (those of the
  constraints as each was added, then those only in the objective), none twice, sorted
  by name with a stable sort.
\<close>

definition dedup :: "'a list \<Rightarrow> 'a list" where
  "dedup xs = rev (remdups (rev xs))"

definition variables :: "'k LpProblem \<Rightarrow> 'k LpVariable list" where
  "variables p = sort_key vname (dedup (problem_vars p))"

section \<open>The tiered-discount formulation\<close>

text \<open>
  \<open>optimize_shipments\<close> of \<open>src/carrier_earned_discount.py\<close>. A variable object is
  identified by the key under which the source stores it: \<open>shipment_at_tier[year][carrier][tier][dest]\<close>
  or \<open>tier_flag[year][carrier][tier]\<close>. A key written twice (a carrier or destination
  listed twice) keeps the object written last.
\<close>

datatype tvar = Ship nat string nat string | TierFlag nat string nat

type_synonym ship_key = "nat \<times> string \<times> nat \<times> string"

definition ship_name :: "nat \<Rightarrow> string \<Rightarrow> nat \<Rightarrow> string \<Rightarrow> string" where
  "ship_name year carrier tier dest =
     ''ship_y'' @ str_nat year @ ''_'' @ carrier @ ''_t'' @ str_nat tier @ ''_'' @ dest"

definition tier_name :: "nat \<Rightarrow> string \<Rightarrow> nat \<Rightarrow> string" where
  "tier_name year carrier tier = ''tier_y'' @ str_nat year @ ''_'' @ carrier @ ''_t'' @ str_nat tier"

definition ship_keys :: "int \<Rightarrow> string list \<Rightarrow> nat \<Rightarrow> string list \<Rightarrow> ship_key list" where
  "ship_keys num_years carriers ntiers destinations =
     [(year, carrier, tier, dest).
        year \<leftarrow> py_range num_years, carrier \<leftarrow> carriers, tier \<leftarrow> [0..<ntiers],
        dest \<leftarrow> destinations]"

definition make_dict :: "('a \<times> 'b) list \<Rightarrow> ('a \<rightharpoonup> 'b)" where
  "make_dict kvs = map_of (rev kvs)"

definition new_ship_var ::
  "(string \<rightharpoonup> rat) list \<Rightarrow> ship_key \<Rightarrow> error + (ship_key \<times> tvar LpVariable)" where
  "new_ship_var shipment_target k =
     (case k of (year, carrier, tier, dest) \<Rightarrow>
        bind_err (list_get shipment_target year) (\<lambda>targets.
        bind_err (dict_get targets dest) (\<lambda>up.
          Inr ((year, carrier, tier, dest),
               new_LpVariable (Ship year carrier tier dest)
                 (ship_name year carrier tier dest) (Some 0) (Some up) Integer))))"

definition tier_flag :: "nat \<Rightarrow> nat \<Rightarrow> string \<Rightarrow> tvar LpVariable list" where
  "tier_flag ntiers year carrier =
     map (\<lambda>tier. new_LpVariable (TierFlag year carrier tier) (tier_name year carrier tier)
                   None None Binary) [0..<ntiers]"

definition objective_term ::
  "(ship_key \<rightharpoonup> tvar LpVariable) \<Rightarrow> (string \<rightharpoonup> (string \<rightharpoonup> rat)) \<Rightarrow> (string \<rightharpoonup> rat list) \<Rightarrow>
   ship_key \<Rightarrow> error + tvar LpAffineExpression" where
  "objective_term shipment_at_tier shipment_cost discount_rate k =
     (case k of (year, carrier, tier, dest) \<Rightarrow>
        bind_err (dict_get shipment_at_tier (year, carrier, tier, dest)) (\<lambda>v.
        bind_err (dict_get shipment_cost carrier) (\<lambda>costs.
        bind_err (dict_get costs dest) (\<lambda>cost.
        bind_err (dict_get discount_rate carrier) (\<lambda>rates.
        bind_err (list_get rates tier) (\<lambda>rate.
          Inr (mul_num (mul_num (of_var v) cost) rate)))))))"

definition gate_constraint ::
  "(ship_key \<rightharpoonup> tvar LpVariable) \<Rightarrow> (string \<rightharpoonup> rat) list \<Rightarrow> nat \<Rightarrow> nat \<Rightarrow> string \<Rightarrow> nat \<Rightarrow>
   string \<Rightarrow> error + tvar LpConstraint" where
  "gate_constraint shipment_at_tier shipment_target ntiers year carrier tier dest =
     bind_err (dict_get shipment_at_tier (year, carrier, tier, dest)) (\<lambda>v.
     bind_err (list_get shipment_target year) (\<lambda>targets.
     bind_err (dict_get targets dest) (\<lambda>target.
     bind_err (list_get (tier_flag ntiers year carrier) tier) (\<lambda>flag.
       Inr (le_expr (of_var v) (mul_num (of_var flag) target))))))"

definition tier_constraints ::
  "(ship_key \<rightharpoonup> tvar LpVariable) \<Rightarrow> (string \<rightharpoonup> rat) list \<Rightarrow> int list \<Rightarrow> string list \<Rightarrow>
   nat \<Rightarrow> string \<Rightarrow> nat \<Rightarrow> error + tvar LpConstraint list" where
  "tier_constraints shipment_at_tier shipment_target tier_min_quantity destinations year carrier tier =
     bind_err (traverse (gate_constraint shipment_at_tier shipment_target
                           (length tier_min_quantity) year carrier tier) destinations) (\<lambda>gates.
     bind_err (traverse (\<lambda>dest. dict_get shipment_at_tier (year, carrier, tier, dest))
                 destinations) (\<lambda>vs.
     bind_err (list_get tier_min_quantity tier) (\<lambda>min_qty.
     bind_err (list_get (tier_flag (length tier_min_quantity) year carrier) tier) (\<lambda>flag.
       Inr (gates @
            [ge_expr (lpSum (map of_var vs)) (mul_num (of_var flag) (of_int min_qty))])))))"

definition carrier_constraints ::
  "(ship_key \<rightharpoonup> tvar LpVariable) \<Rightarrow> (string \<rightharpoonup> rat) list \<Rightarrow> int list \<Rightarrow> string list \<Rightarrow>
   nat \<times> string \<Rightarrow> error + tvar LpConstraint list" where
  "carrier_constraints shipment_at_tier shipment_target tier_min_quantity destinations yc =
     (case yc of (year, carrier) \<Rightarrow>
        bind_err (traverse (tier_constraints shipment_at_tier shipment_target tier_min_quantity
                              destinations year carrier) [0..<length tier_min_quantity]) (\<lambda>per_tier.
          Inr (eq_num (lpSum (map of_var (tier_flag (length tier_min_quantity) year carrier))) 1
               # concat per_tier)))"

definition target_constraint ::
  "(ship_key \<rightharpoonup> tvar LpVariable) \<Rightarrow> (string \<rightharpoonup> rat) list \<Rightarrow> string list \<Rightarrow> nat \<Rightarrow>
   nat \<times> string \<Rightarrow> error + tvar LpConstraint" where
  "target_constraint shipment_at_tier shipment_target carriers ntiers yd =
     (case yd of (year, dest) \<Rightarrow>
        bind_err (traverse (dict_get shipment_at_tier)
                    [(year, carrier, tier, dest). carrier \<leftarrow> carriers, tier \<leftarrow> [0..<ntiers]]) (\<lambda>vs.
        bind_err (list_get shipment_target year) (\<lambda>targets.
        bind_err (dict_get targets dest) (\<lambda>target.
          Inr (eq_num (lpSum (map of_var vs)) target)))))"

definition optimize_shipments ::
  "int \<Rightarrow> string list \<Rightarrow> string list \<Rightarrow> (string \<rightharpoonup> rat) list \<Rightarrow> (string \<rightharpoonup> (string \<rightharpoonup> rat)) \<Rightarrow>
   int list \<Rightarrow> (string \<rightharpoonup> rat list) \<Rightarrow> error + tvar LpProblem" where
  "optimize_shipments num_years carriers destinations shipment_target shipment_cost
     tier_min_quantity discount_rate =
     bind_err (traverse (new_ship_var shipment_target)
                 (ship_keys num_years carriers (length tier_min_quantity) destinations)) (\<lambda>created.
     bind_err (traverse (objective_term (make_dict created) shipment_cost discount_rate)
                 (ship_keys num_years carriers (length tier_min_quantity) destinations)) (\<lambda>total_cost.
     bind_err (traverse (carrier_constraints (make_dict created) shipment_target
                           tier_min_quantity destinations)
                 [(year, carrier). year \<leftarrow> py_range num_years, carrier \<leftarrow> carriers]) (\<lambda>per_carrier.
     bind_err (traverse (target_constraint (make_dict created) shipment_target carriers
                           (length tier_min_quantity))
                 [(year, dest). year \<leftarrow> py_range num_years, dest \<leftarrow> destinations]) (\<lambda>targets.
       Inr (fold (\<lambda>c p. add_unnamed p c) (concat per_carrier @ targets)
              \<lparr>objective = lpSum total_cost, constraints = []\<rparr>)))))"

text \<open>
  \<open>optimize_shipments\<close> of \<open>src/problems/carrier_earned_discount/main.py\<close>, translated
  on its own, loop bodies in place.
\<close>

definition optimize_shipments_problems ::
  "int \<Rightarrow> string list \<Rightarrow> string list \<Rightarrow> (string \<rightharpoonup> rat) list \<Rightarrow> (string \<rightharpoonup> (string \<rightharpoonup> rat)) \<Rightarrow>
   int list \<Rightarrow> (string \<rightharpoonup> rat list) \<Rightarrow> error + tvar LpProblem" where
  "optimize_shipments_problems num_years carriers destinations shipment_target shipment_cost
     tier_min_quantity discount_rate =
     bind_err
       (traverse
          (\<lambda>(year, carrier, tier, dest).
             bind_err (list_get shipment_target year) (\<lambda>targets.
             bind_err (dict_get targets dest) (\<lambda>up.
               Inr ((year, carrier, tier, dest),
                    new_LpVariable (Ship year carrier tier dest)
                      (''ship_y'' @ str_nat year @ ''_'' @ carrier @ ''_t'' @ str_nat tier @ ''_'' @ dest)
                      (Some 0) (Some up) Integer))))
          [(year, carrier, tier, dest).
             year \<leftarrow> py_range num_years, carrier \<leftarrow> carriers,
             tier \<leftarrow> [0..<length tier_min_quantity], dest \<leftarrow> destinations])
       (\<lambda>created.
     bind_err
       (traverse
          (\<lambda>(year, carrier, tier, dest).
             bind_err (dict_get (map_of (rev created)) (year, carrier, tier, dest)) (\<lambda>v.
             bind_err (dict_get shipment_cost carrier) (\<lambda>costs.
             bind_err (dict_get costs dest) (\<lambda>cost.
             bind_err (dict_get discount_rate carrier) (\<lambda>rates.
             bind_err (list_get rates tier) (\<lambda>rate.
               Inr (mul_num (mul_num (of_var v) cost) rate)))))))
          [(year, carrier, tier, dest).
             year \<leftarrow> py_range num_years, carrier \<leftarrow> carriers,
             tier \<leftarrow> [0..<length tier_min_quantity], dest \<leftarrow> destinations])
       (\<lambda>total_cost.
     bind_err
       (traverse
          (\<lambda>(year, carrier).
             bind_err
               (traverse
                  (\<lambda>tier.
                     bind_err
                       (traverse
                          (\<lambda>dest.
                             bind_err (dict_get (map_of (rev created)) (year, carrier, tier, dest)) (\<lambda>v.
                             bind_err (list_get shipment_target year) (\<lambda>targets.
                             bind_err (dict_get targets dest) (\<lambda>target.
                             bind_err (list_get
                                         (map (\<lambda>tier. new_LpVariable (TierFlag year carrier tier)
                                                 (''tier_y'' @ str_nat year @ ''_'' @ carrier @ ''_t'' @ str_nat tier)
                                                 None None Binary)
                                            [0..<length tier_min_quantity]) tier) (\<lambda>flag.
                               Inr (le_expr (of_var v) (mul_num (of_var flag) target)))))))
                          destinations) (\<lambda>gates.
                     bind_err
                       (traverse (\<lambda>dest. dict_get (map_of (rev created)) (year, carrier, tier, dest))
                          destinations) (\<lambda>vs.
                     bind_err (list_get tier_min_quantity tier) (\<lambda>min_qty.
                     bind_err (list_get
                                 (map (\<lambda>tier. new_LpVariable (TierFlag year carrier tier)
                                         (''tier_y'' @ str_nat year @ ''_'' @ carrier @ ''_t'' @ str_nat tier)
                                         None None Binary)
                                    [0..<length tier_min_quantity]) tier) (\<lambda>flag.
                       Inr (gates @
                            [ge_expr (lpSum (map of_var vs))
                               (mul_num (of_var flag) (of_int min_qty))]))))))
                  [0..<length tier_min_quantity]) (\<lambda>per_tier.
               Inr (eq_num
                      (lpSum (map of_var
                         (map (\<lambda>tier. new_LpVariable (TierFlag year carrier tier)
                                 (''tier_y'' @ str_nat year @ ''_'' @ carrier @ ''_t'' @ str_nat tier)
                                 None None Binary)
                            [0..<length tier_min_quantity]))) 1
                    # concat per_tier)))
          [(year, carrier). year \<leftarrow> py_range num_years, carrier \<leftarrow> carriers])
       (\<lambda>per_carrier.
     bind_err
       (traverse
          (\<lambda>(year, dest).
             bind_err
               (traverse (dict_get (map_of (rev created)))
                  [(year, carrier, tier, dest).
                     carrier \<leftarrow> carriers, tier \<leftarrow> [0..<length tier_min_quantity]]) (\<lambda>vs.
             bind_err (list_get shipment_target year) (\<lambda>targets.
             bind_err (dict_get targets dest) (\<lambda>target.
               Inr (eq_num (lpSum (map of_var vs)) target)))))
          [(year, dest). year \<leftarrow> py_range num_years, dest \<leftarrow> destinations])
       (\<lambda>targets.
          Inr (fold (\<lambda>c p. add_unnamed p c) (concat per_carrier @ targets)
                 \<lparr>objective = lpSum total_cost, constraints = []\<rparr>)))))"

section \<open>The network-allocation formulation\<close>

text \<open>
  \<open>optimize_shipments\<close> of \<open>src/warehouse_shipments.py\<close>. A variable object is
  identified by its key in \<open>shipment_count\<close> or in \<open>warehouse_usage\<close>;
  \<open>LpVariable.dicts\<close> names the variable of index \<open>i\<close> \<open>warehouse_usage_i\<close>.
\<close>

datatype wvar = ShipmentCount string string | WarehouseUsage string

definition w_pairs :: "string list \<Rightarrow> string list \<Rightarrow> (string \<times> string) list" where
  "w_pairs warehouses destinations = [(i, j). i \<leftarrow> warehouses, j \<leftarrow> destinations]"

definition new_shipment_count ::
  "(string \<rightharpoonup> (string \<rightharpoonup> int)) \<Rightarrow> string \<times> string \<Rightarrow>
   error + ((string \<times> string) \<times> wvar LpVariable)" where
  "new_shipment_count shipment_capacity ij =
     (case ij of (i, j) \<Rightarrow>
        bind_err (dict_get shipment_capacity i) (\<lambda>caps.
        bind_err (dict_get caps j) (\<lambda>cap.
          Inr ((i, j),
               new_LpVariable (ShipmentCount i j) (''shipment_count_'' @ i @ ''_'' @ j)
                 (Some 0) (Some (of_int cap)) Integer))))"

definition warehouse_usage_dicts :: "string list \<Rightarrow> (string \<rightharpoonup> wvar LpVariable)" where
  "warehouse_usage_dicts warehouses =
     make_dict (map (\<lambda>i. (i, new_LpVariable (WarehouseUsage i) (''warehouse_usage_'' @ i)
                              None None Binary)) warehouses)"

definition new_delivery_target_failure ::
  "(string \<rightharpoonup> (string \<rightharpoonup> int)) \<Rightarrow> int \<Rightarrow> string \<times> string \<Rightarrow>
   error + ((string \<times> string) \<times> rat)" where
  "new_delivery_target_failure delivery_estimate target_delivery_days ij =
     (case ij of (i, j) \<Rightarrow>
        bind_err (dict_get delivery_estimate i) (\<lambda>ests.
        bind_err (dict_get ests j) (\<lambda>est.
          Inr ((i, j), if est > target_delivery_days then 1 else 0))))"

definition w_shipment_term ::
  "(string \<times> string \<rightharpoonup> wvar LpVariable) \<Rightarrow> (string \<rightharpoonup> (string \<rightharpoonup> rat)) \<Rightarrow> string \<times> string \<Rightarrow>
   error + wvar LpAffineExpression" where
  "w_shipment_term shipment_count shipment_cost ij =
     (case ij of (i, j) \<Rightarrow>
        bind_err (dict_get shipment_count (i, j)) (\<lambda>v.
        bind_err (dict_get shipment_cost i) (\<lambda>costs.
        bind_err (dict_get costs j) (\<lambda>cost.
          Inr (mul_num (of_var v) cost)))))"

definition w_usage_term ::
  "(string \<rightharpoonup> wvar LpVariable) \<Rightarrow> (string \<rightharpoonup> rat) \<Rightarrow> string \<Rightarrow> error + wvar LpAffineExpression" where
  "w_usage_term warehouse_usage warehouse_cost i =
     bind_err (dict_get warehouse_usage i) (\<lambda>u.
     bind_err (dict_get warehouse_cost i) (\<lambda>cost.
       Inr (mul_num (of_var u) cost)))"

definition warehouse_usage_constraint ::
  "(string \<times> string \<rightharpoonup> wvar LpVariable) \<Rightarrow> (string \<rightharpoonup> wvar LpVariable) \<Rightarrow>
   (string \<rightharpoonup> (string \<rightharpoonup> int)) \<Rightarrow> string \<times> string \<Rightarrow> error + (wvar LpConstraint \<times> string)" where
  "warehouse_usage_constraint shipment_count warehouse_usage shipment_capacity ij =
     (case ij of (i, j) \<Rightarrow>
        bind_err (dict_get shipment_count (i, j)) (\<lambda>v.
        bind_err (dict_get shipment_capacity i) (\<lambda>caps.
        bind_err (dict_get caps j) (\<lambda>cap.
        bind_err (dict_get warehouse_usage i) (\<lambda>u.
          Inr (le_expr (of_var v) (mul_num (of_var u) (of_int cap)),
               ''Warehouse_Usage_'' @ i @ ''_'' @ j))))))"

definition distribution_constraint ::
  "(string \<times> string \<rightharpoonup> wvar LpVariable) \<Rightarrow> string list \<Rightarrow> (string \<rightharpoonup> int) \<Rightarrow> string \<Rightarrow>
   error + (wvar LpConstraint \<times> string)" where
  "distribution_constraint shipment_count warehouses target_distribution j =
     bind_err (traverse (\<lambda>i. dict_get shipment_count (i, j)) warehouses) (\<lambda>vs.
     bind_err (dict_get target_distribution j) (\<lambda>target.
       Inr (eq_num (lpSum (map of_var vs)) (of_int target), ''Distribution_'' @ j)))"

definition failed_term ::
  "(string \<times> string \<rightharpoonup> rat) \<Rightarrow> (string \<times> string \<rightharpoonup> wvar LpVariable) \<Rightarrow> string \<Rightarrow> string \<Rightarrow>
   error + wvar LpAffineExpression" where
  "failed_term delivery_target_failure shipment_count j i =
     bind_err (dict_get delivery_target_failure (i, j)) (\<lambda>late.
     bind_err (dict_get shipment_count (i, j)) (\<lambda>v.
       Inr (mul_num (of_var v) late)))"

definition delivery_target_constraint ::
  "(string \<times> string \<rightharpoonup> rat) \<Rightarrow> (string \<times> string \<rightharpoonup> wvar LpVariable) \<Rightarrow> string list \<Rightarrow> rat \<Rightarrow>
   string \<Rightarrow> error + (wvar LpConstraint \<times> string)" where
  "delivery_target_constraint delivery_target_failure shipment_count warehouses
     delivery_tolerance j =
     bind_err (traverse (failed_term delivery_target_failure shipment_count j) warehouses)
       (\<lambda>failed_shipments.
     bind_err (traverse (\<lambda>i. dict_get shipment_count (i, j)) warehouses) (\<lambda>vs.
       Inr (le_expr (lpSum failed_shipments)
              (mul_num (lpSum (map of_var vs)) delivery_tolerance),
            ''Delivery_Target_'' @ j)))"

definition optimize_shipments_warehouse ::
  "string list \<Rightarrow> string list \<Rightarrow> (string \<rightharpoonup> int) \<Rightarrow> (string \<rightharpoonup> (string \<rightharpoonup> int)) \<Rightarrow>
   (string \<rightharpoonup> rat) \<Rightarrow> (string \<rightharpoonup> (string \<rightharpoonup> rat)) \<Rightarrow> int \<Rightarrow> rat \<Rightarrow>
   (string \<rightharpoonup> (string \<rightharpoonup> int)) \<Rightarrow> error + wvar LpProblem" where
  "optimize_shipments_warehouse warehouses destinations target_distribution shipment_capacity
     warehouse_cost shipment_cost target_delivery_days delivery_tolerance delivery_estimate =
     bind_err (traverse (new_shipment_count shipment_capacity)
                 (w_pairs warehouses destinations)) (\<lambda>created.
     bind_err (traverse (new_delivery_target_failure delivery_estimate target_delivery_days)
                 (w_pairs warehouses destinations)) (\<lambda>failures.
     bind_err (traverse (w_shipment_term (make_dict created) shipment_cost)
                 (w_pairs warehouses destinations)) (\<lambda>shipment_terms.
     bind_err (traverse (w_usage_term (warehouse_usage_dicts warehouses) warehouse_cost)
                 warehouses) (\<lambda>usage_terms.
     bind_err (add_loop (warehouse_usage_constraint (make_dict created)
                           (warehouse_usage_dicts warehouses) shipment_capacity)
                 \<lparr>objective = addInPlace (lpSum shipment_terms) (lpSum usage_terms),
                  constraints = []\<rparr>
                 (w_pairs warehouses destinations)) (\<lambda>p1.
     bind_err (add_loop (distribution_constraint (make_dict created) warehouses
                           target_distribution) p1 destinations) (\<lambda>p2.
     add_loop (delivery_target_constraint (make_dict failures) (make_dict created)
                 warehouses delivery_tolerance) p2 destinations))))))"

section \<open>Printed reports\<close>

text \<open>
  What \<open>print\<close> writes is kept as a list of lines, each a list of pieces: literal text,
  an interpolated string, or an interpolated number. Format specifications (width,
  alignment, precision, thousands separators) are not modelled: a formatted number is
  the number itself. A report is the lines printed so far together with how the function
  ended: an exception, or a value.
\<close>

datatype piece = Txt string | Str string | Num rat

type_synonym line = "piece list"

type_synonym 'a io = "line list \<times> (error + 'a)"

definition io_return :: "'a \<Rightarrow> 'a io" where
  "io_return x = ([], Inr x)"

definition io_lift :: "error + 'a \<Rightarrow> 'a io" where
  "io_lift r = ([], r)"

definition print :: "line \<Rightarrow> unit io" where
  "print l = ([l], Inr ())"

definition io_bind :: "'a io \<Rightarrow> ('a \<Rightarrow> 'b io) \<Rightarrow> 'b io" where
  "io_bind m f =
     (case m of
        (out, Inl e) \<Rightarrow> (out, Inl e)
      | (out, Inr x) \<Rightarrow> (case f x of (out', r) \<Rightarrow> (out @ out', r)))"

definition io_then :: "unit io \<Rightarrow> 'b io \<Rightarrow> 'b io" where
  "io_then m k = io_bind m (\<lambda>_. k)"

fun prints :: "line list \<Rightarrow> unit io" where
  "prints [] = io_return ()"
| "prints (l # ls) = io_then (print l) (prints ls)"

fun io_fold :: "('a \<Rightarrow> 's \<Rightarrow> 's io) \<Rightarrow> 'a list \<Rightarrow> 's \<Rightarrow> 's io" where
  "io_fold f [] s = io_return s"
| "io_fold f (x # xs) s = io_bind (f x s) (io_fold f xs)"

definition io_for :: "'a list \<Rightarrow> ('a \<Rightarrow> unit io) \<Rightarrow> unit io" where
  "io_for xs f = io_fold (\<lambda>x _. f x) xs ()"

definition newline :: string where
  "newline = [CHR 0x0A]"

definition warn_sign :: string where
  "warn_sign = [CHR 0xE2, CHR 0x9A, CHR 0xA0]"

definition bullet :: string where
  "bullet = [CHR 0xE2, CHR 0x80, CHR 0xA2]"

definition check_mark :: string where
  "check_mark = [CHR 0xE2, CHR 0x9C, CHR 0x93]"

definition cross_mark :: string where
  "cross_mark = [CHR 0xE2, CHR 0x9C, CHR 0x97]"

definition rule_line :: "char \<Rightarrow> nat \<Rightarrow> string" where
  "rule_line c n = replicate n c"

text \<open>\<open>sum(d.values())\<close> of a dict.\<close>

definition dict_sum :: "('k \<rightharpoonup> 'v::comm_monoid_add) \<Rightarrow> 'v" where
  "dict_sum m = (\<Sum>k\<in>dom m. the (m k))"

text \<open>pulp's table of status names, and its status codes.\<close>

definition LpStatus :: "int \<rightharpoonup> string" where
  "LpStatus = [0 \<mapsto> ''Not Solved'', 1 \<mapsto> ''Optimal'', - 1 \<mapsto> ''Infeasible'',
               - 2 \<mapsto> ''Unbounded'', - 3 \<mapsto> ''Undefined'']"

definition LpStatusOptimal :: int where "LpStatusOptimal = 1"
definition LpStatusInfeasible :: int where "LpStatusInfeasible = - 1"
definition LpStatusUnbounded :: int where "LpStatusUnbounded = - 2"
definition LpStatusNotSolved :: int where "LpStatusNotSolved = 0"

text \<open>
  \<open>value(problem.objective)\<close>: \<open>None\<close> as soon as a variable met while summing has no
  value.
\<close>

fun value_terms :: "('k \<Rightarrow> rat option) \<Rightarrow> ('k LpVariable \<times> rat) list \<Rightarrow> rat \<Rightarrow> rat option" where
  "value_terms varValue [] s = Some s"
| "value_terms varValue ((v, x) # ts) s =
     (case varValue (ident v) of
        None \<Rightarrow> None
      | Some y \<Rightarrow> value_terms varValue ts (s + y * x))"

definition objective_value :: "'k LpProblem \<Rightarrow> ('k \<Rightarrow> rat option) \<Rightarrow> rat option" where
  "objective_value p varValue =
     value_terms varValue (terms (objective p)) (const_part (objective p))"

subsection \<open>\<open>print_solution\<close> of \<open>src/carrier_earned_discount.py\<close>\<close>

text \<open>
  The solved problem is the problem, its status code and the value of each variable
  (\<open>None\<close> for a variable the solver gave no value).
\<close>

definition infeasible_report ::
  "int \<Rightarrow> string list \<Rightarrow> string list \<Rightarrow> (string \<rightharpoonup> rat) list \<Rightarrow> int list \<Rightarrow> unit io" where
  "infeasible_report num_years carriers destinations shipment_target tier_min_quantity =
     io_then (prints
       [[Txt (newline @ warn_sign @ '' PROBLEM IS INFEASIBLE '' @ warn_sign)],
        [Txt (newline @ ''The constraints cannot be satisfied simultaneously.'')],
        [Txt (newline @ ''Possible reasons:'')],
        [Txt ''  1. Shipment targets exceed combined carrier capacity at any tier''],
        [Txt ''  2. Individual destination targets exceed any single carrier's capacity''],
        [Txt ''  3. Minimum tier quantities are too high to achieve with given targets''],
        [Txt ''  4. Conflicting constraints between tier requirements and shipment bounds''],
        [Txt (newline @ ''Diagnostic Information:'')]])
    (io_bind (io_lift (traverse (list_get shipment_target) (py_range num_years))) (\<lambda>years.
     io_then (prints
       [[Txt ''  Total shipments needed (all years): '', Num (sum_list (map dict_sum years))],
        [Txt ''  Number of carriers: '', Num (of_nat (length carriers))],
        [Txt ''  Number of destinations: '', Num (of_nat (length destinations))],
        [Txt ''  Number of years: '', Num (of_int num_years)],
        [Txt (newline @ ''  Tier minimum quantities:'')]])
    (io_then (io_for (enumerate 0 tier_min_quantity) (\<lambda>(i, min_qty).
       print [Txt ''    Tier '', Num (of_nat i), Txt '': '', Num (of_int min_qty),
              Txt '' shipments'']))
    (io_then (print [Txt (newline @ ''  Yearly shipment targets:'')])
    (io_then (io_for (py_range num_years) (\<lambda>year.
       io_bind (io_lift (list_get shipment_target year)) (\<lambda>targets.
       io_then (print [Txt ''    Year '', Num (of_nat year), Txt '': '', Num (dict_sum targets),
                       Txt '' total''])
         (io_for destinations (\<lambda>dest.
            io_bind (io_lift (list_get shipment_target year)) (\<lambda>targets'.
            io_bind (io_lift (dict_get targets' dest)) (\<lambda>target.
              print [Txt ''      '', Str dest, Txt '': '', Num target])))))))
    (prints
       [[Txt (newline @ ''Suggestions:'')],
        [Txt (''  '' @ bullet @ '' Check if any single destination target exceeds maximum shipments'')],
        [Txt (''  '' @ bullet @ '' Verify tier minimums are achievable with your shipment volumes'')],
        [Txt (''  '' @ bullet @ '' Consider adding more carriers or relaxing constraints'')],
        [Txt (''  '' @ bullet @ '' Review if shipment bounds are too restrictive'')]]))))))"

definition unbounded_report :: "unit io" where
  "unbounded_report = prints
     [[Txt (newline @ warn_sign @ '' PROBLEM IS UNBOUNDED '' @ warn_sign)],
      [Txt (newline @ ''The objective function can be improved indefinitely.'')],
      [Txt ''This suggests an error in the model formulation:''],
      [Txt (''  '' @ bullet @ '' Missing constraints that should limit the solution'')],
      [Txt (''  '' @ bullet @ '' Incorrect objective function (possibly wrong sign)'')],
      [Txt (''  '' @ bullet @ '' Variables without proper bounds'')]]"

definition not_solved_report :: "unit io" where
  "not_solved_report = prints
     [[Txt (newline @ warn_sign @ '' PROBLEM NOT SOLVED '' @ warn_sign)],
      [Txt (newline @ ''The solver did not attempt to solve or did not complete.'')],
      [Txt ''Possible reasons:''],
      [Txt (''  '' @ bullet @ '' Solver not found or not properly installed'')],
      [Txt (''  '' @ bullet @ '' Problem too large for available memory'')],
      [Txt (''  '' @ bullet @ '' Timeout reached before solution found'')],
      [Txt (''  '' @ bullet @ '' Solver configuration error'')]]"

definition undefined_report :: "unit io" where
  "undefined_report = prints
     [[Txt (newline @ warn_sign @ '' SOLVER RETURNED UNDEFINED STATUS '' @ warn_sign)],
      [Txt (newline @ ''The solver encountered an issue:'')],
      [Txt (''  '' @ bullet @ '' Numerical difficulties'')],
      [Txt (''  '' @ bullet @ '' Model formulation issues'')],
      [Txt (''  '' @ bullet @ '' Solver-specific error'')]]"

definition unknown_report :: "int \<Rightarrow> rat option \<Rightarrow> unit io" where
  "unknown_report status_code obj =
     io_then (print [Txt (newline @ warn_sign @ '' UNKNOWN STATUS: ''), Num (of_int status_code),
                     Txt ('' '' @ warn_sign)])
       (case obj of
          None \<Rightarrow> print [Txt ''Cost unavailable'']
        | Some c \<Rightarrow> if c \<noteq> 0 then print [Txt ''Optimal Total Cost: $'', Num c]
                    else print [Txt ''Cost unavailable''])"

fun fold_err :: "('a \<Rightarrow> 's \<Rightarrow> error + 's) \<Rightarrow> 'a list \<Rightarrow> 's \<Rightarrow> error + 's" where
  "fold_err f [] s = Inr s"
| "fold_err f (x # xs) s = (case f x s of Inl e \<Rightarrow> Inl e | Inr s' \<Rightarrow> fold_err f xs s')"

text \<open>
  The scan for the active tier: every variable of the problem is compared by name, and
  the value of one whose name matches is compared with 0.5 (a \<open>None\<close> there is a
  TypeError). The name looked for is the unsanitized one.
\<close>

fun scan_active :: "'k LpVariable list \<Rightarrow> ('k \<Rightarrow> rat option) \<Rightarrow> string \<Rightarrow> error + bool" where
  "scan_active [] varValue nm = Inr False"
| "scan_active (var # vars) varValue nm =
     (if vname var = nm
      then (case varValue (ident var) of
              None \<Rightarrow> Inl TypeError
            | Some x \<Rightarrow> if x > 1 / 2 then Inr True else scan_active vars varValue nm)
      else scan_active vars varValue nm)"

fun find_active_tier ::
  "tvar LpVariable list \<Rightarrow> (tvar \<Rightarrow> rat option) \<Rightarrow> nat \<Rightarrow> string \<Rightarrow> nat list \<Rightarrow> error + nat option" where
  "find_active_tier vars varValue year carrier [] = Inr None"
| "find_active_tier vars varValue year carrier (tier # tiers) =
     (case scan_active vars varValue (tier_name year carrier tier) of
        Inl e \<Rightarrow> Inl e
      | Inr found \<Rightarrow> if found then Inr (Some tier)
                     else find_active_tier vars varValue year carrier tiers)"

text \<open>The value of the first variable with a given name, when there is one with a value.\<close>

definition named_value :: "'k LpVariable list \<Rightarrow> ('k \<Rightarrow> rat option) \<Rightarrow> string \<Rightarrow> rat option" where
  "named_value vars varValue nm =
     (case find (\<lambda>var. vname var = nm) vars of
        None \<Rightarrow> None
      | Some var \<Rightarrow> varValue (ident var))"

definition add_tier_shipments ::
  "tvar LpVariable list \<Rightarrow> (tvar \<Rightarrow> rat option) \<Rightarrow> (string \<rightharpoonup> rat list) \<Rightarrow> nat \<Rightarrow> string \<Rightarrow>
   string \<Rightarrow> nat \<Rightarrow> rat \<times> rat \<Rightarrow> error + (rat \<times> rat)" where
  "add_tier_shipments vars varValue discount_rate year carrier dest tier acc =
     (case acc of (dest_shipments, dest_cost) \<Rightarrow>
        (case named_value vars varValue (ship_name year carrier tier dest) of
           None \<Rightarrow> Inr (dest_shipments, dest_cost)
         | Some shipments \<Rightarrow>
             if shipments > 0
             then bind_err (dict_get discount_rate carrier) (\<lambda>rates.
                  bind_err (list_get rates tier) (\<lambda>rate.
                    Inr (dest_shipments + shipments, dest_cost + shipments * rate)))
             else Inr (dest_shipments, dest_cost)))"

definition dest_row ::
  "tvar LpVariable list \<Rightarrow> (tvar \<Rightarrow> rat option) \<Rightarrow> (string \<rightharpoonup> rat) list \<Rightarrow> nat \<Rightarrow>
   (string \<rightharpoonup> rat list) \<Rightarrow> nat \<Rightarrow> string \<Rightarrow> string \<Rightarrow> rat \<times> rat \<Rightarrow> (rat \<times> rat) io" where
  "dest_row vars varValue shipment_target ntiers discount_rate year carrier dest acc =
     (case acc of (carrier_shipments, carrier_cost) \<Rightarrow>
        io_bind (io_lift (fold_err (add_tier_shipments vars varValue discount_rate year carrier dest)
                            [0..<ntiers] (0, 0))) (\<lambda>(dest_shipments, dest_cost).
        io_then (if dest_shipments > 0
                 then io_bind (io_lift (list_get shipment_target year)) (\<lambda>targets.
                      io_bind (io_lift (dict_get targets dest)) (\<lambda>target.
                        print [Txt ''    '', Str dest, Txt '' '', Num dest_shipments, Txt '' '',
                               Num target, Txt '' $'', Num dest_cost]))
                 else io_return ())
          (io_return (carrier_shipments + dest_shipments, carrier_cost + dest_cost))))"

definition table_rule :: line where
  "table_rule = [Txt ''    '', Str (rule_line CHR ''-'' 15), Txt '' '', Str (rule_line CHR ''-'' 12),
                 Txt '' '', Str (rule_line CHR ''-'' 12), Txt '' '', Str (rule_line CHR ''-'' 15)]"

definition carrier_block ::
  "tvar LpVariable list \<Rightarrow> (tvar \<Rightarrow> rat option) \<Rightarrow> string list \<Rightarrow> (string \<rightharpoonup> rat) list \<Rightarrow>
   int list \<Rightarrow> (string \<rightharpoonup> rat list) \<Rightarrow> nat \<Rightarrow> string \<Rightarrow> rat \<times> rat \<Rightarrow> (rat \<times> rat) io" where
  "carrier_block vars varValue destinations shipment_target tier_min_quantity discount_rate
     year carrier acc =
     (case acc of (year_total_shipments, year_total_cost) \<Rightarrow>
        io_then (print [Txt (newline @ ''  ''), Str carrier, Txt '':''])
       (io_bind (io_lift (find_active_tier vars varValue year carrier
                            [0..<length tier_min_quantity])) (\<lambda>active_tier.
        io_then (case active_tier of
                   None \<Rightarrow> io_return ()
                 | Some t \<Rightarrow>
                     io_bind (io_lift (bind_err (dict_get discount_rate carrier)
                                         (\<lambda>rates. list_get rates t))) (\<lambda>rate.
                     io_then (print [Txt ''    Active Tier: '', Num (of_nat t),
                                     Txt '' (Discount: '', Num ((1 - rate) * 100),
                                     Txt ''%, Multiplier: '', Num rate, Txt '')''])
                    (io_bind (io_lift (list_get tier_min_quantity t)) (\<lambda>min_qty.
                       print [Txt ''    Min Required: '', Num (of_int min_qty),
                              Txt '' shipments'']))))
       (io_then (prints
                   [[Txt (newline @ ''    ''), Str ''Destination'', Txt '' '', Str ''Shipments'',
                     Txt '' '', Str ''Target'', Txt '' '', Str ''Cost''],
                    table_rule])
       (io_bind (io_fold (dest_row vars varValue shipment_target (length tier_min_quantity)
                            discount_rate year carrier) destinations (0, 0))
          (\<lambda>(carrier_shipments, carrier_cost).
        io_then (prints
                   [table_rule,
                    [Txt ''    '', Str ''CARRIER TOTAL'', Txt '' '', Num carrier_shipments,
                     Txt '' '', Str [], Txt '' $'', Num carrier_cost]])
          (io_return (year_total_shipments + carrier_shipments,
                      year_total_cost + carrier_cost))))))))"

definition year_block ::
  "tvar LpVariable list \<Rightarrow> (tvar \<Rightarrow> rat option) \<Rightarrow> string list \<Rightarrow> string list \<Rightarrow>
   (string \<rightharpoonup> rat) list \<Rightarrow> int list \<Rightarrow> (string \<rightharpoonup> rat list) \<Rightarrow> nat \<Rightarrow> unit io" where
  "year_block vars varValue carriers destinations shipment_target tier_min_quantity
     discount_rate year =
     io_then (print [Txt newline, Str (''Year '' @ str_nat year)])
    (io_bind (io_fold (carrier_block vars varValue destinations shipment_target
                         tier_min_quantity discount_rate year) carriers (0, 0))
       (\<lambda>(year_total_shipments, year_total_cost).
          print [Txt (newline @ ''  ''), Str ''YEAR TOTAL'', Txt '' '', Num year_total_shipments,
                 Txt '' '', Str [], Txt '' $'', Num year_total_cost]))"

definition value_or_zero :: "'k LpVariable list \<Rightarrow> ('k \<Rightarrow> rat option) \<Rightarrow> string \<Rightarrow> rat" where
  "value_or_zero vars varValue nm =
     (case named_value vars varValue nm of None \<Rightarrow> 0 | Some shipments \<Rightarrow> shipments)"

definition destination_summary_row ::
  "tvar LpVariable list \<Rightarrow> (tvar \<Rightarrow> rat option) \<Rightarrow> int \<Rightarrow> string list \<Rightarrow>
   (string \<rightharpoonup> rat) list \<Rightarrow> nat \<Rightarrow> string \<Rightarrow> unit io" where
  "destination_summary_row vars varValue num_years carriers shipment_target ntiers dest =
     io_bind (io_lift (traverse (\<lambda>year. bind_err (list_get shipment_target year)
                                           (\<lambda>targets. dict_get targets dest))
                         (py_range num_years))) (\<lambda>targets.
       print [Str dest, Txt '' '',
              Num (sum_list [value_or_zero vars varValue (ship_name year carrier tier dest).
                               year \<leftarrow> py_range num_years, carrier \<leftarrow> carriers,
                               tier \<leftarrow> [0..<ntiers]]),
              Txt '' '', Num (sum_list targets), Txt '' '',
              Str (if \<bar>sum_list [value_or_zero vars varValue (ship_name year carrier tier dest).
                                   year \<leftarrow> py_range num_years, carrier \<leftarrow> carriers,
                                   tier \<leftarrow> [0..<ntiers]] - sum_list targets\<bar> < 1 / 100
                   then check_mark else cross_mark)])"

definition carrier_performance_row ::
  "tvar LpVariable list \<Rightarrow> (tvar \<Rightarrow> rat option) \<Rightarrow> string list \<Rightarrow> nat \<Rightarrow>
   (string \<rightharpoonup> rat list) \<Rightarrow> string \<times> nat \<Rightarrow> unit io" where
  "carrier_performance_row vars varValue destinations ntiers discount_rate cy =
     (case cy of (carrier, year) \<Rightarrow>
        io_bind (io_lift (find_active_tier vars varValue year carrier [0..<ntiers]))
          (\<lambda>active_tier.
             case active_tier of
               None \<Rightarrow> io_return ()
             | Some t \<Rightarrow>
                 io_bind (io_lift (bind_err (dict_get discount_rate carrier)
                                     (\<lambda>rates. list_get rates t))) (\<lambda>rate.
                   print [Str carrier, Txt '' '', Num (of_nat year), Txt '' '', Num (of_nat t),
                          Txt '' '',
                          Num (sum_list [value_or_zero vars varValue
                                           (ship_name year carrier tier dest).
                                           dest \<leftarrow> destinations, tier \<leftarrow> [0..<ntiers]]),
                          Txt '' '', Num ((1 - rate) * 100), Txt ''%''])))"

definition optimal_report ::
  "tvar LpVariable list \<Rightarrow> (tvar \<Rightarrow> rat option) \<Rightarrow> int \<Rightarrow> string list \<Rightarrow> string list \<Rightarrow>
   (string \<rightharpoonup> rat) list \<Rightarrow> int list \<Rightarrow> (string \<rightharpoonup> rat list) \<Rightarrow> unit io" where
  "optimal_report vars varValue num_years carriers destinations shipment_target
     tier_min_quantity discount_rate =
     io_then (prints
       [[Txt (newline @ rule_line CHR ''-'' 80)],
        [Txt ''SHIPMENT ALLOCATION BY YEAR''],
        [Txt (rule_line CHR ''-'' 80)]])
    (io_then (io_for (py_range num_years)
                (year_block vars varValue carriers destinations shipment_target
                   tier_min_quantity discount_rate))
    (io_then (prints
       [[Txt (newline @ rule_line CHR ''-'' 80)],
        [Txt ''DESTINATION SUMMARY (All Years)''],
        [Txt (rule_line CHR ''-'' 80)],
        [Txt newline, Str ''Destination'', Txt '' '', Str ''Total Shipments'', Txt '' '',
         Str ''Total Target'', Txt '' '', Str ''Status''],
        [Str (rule_line CHR ''-'' 15), Txt '' '', Str (rule_line CHR ''-'' 18), Txt '' '',
         Str (rule_line CHR ''-'' 18), Txt '' '', Str (rule_line CHR ''-'' 10)]])
    (io_then (io_for destinations
                (destination_summary_row vars varValue num_years carriers shipment_target
                   (length tier_min_quantity)))
    (io_then (prints
       [[Txt (newline @ rule_line CHR ''-'' 80)],
        [Txt ''CARRIER PERFORMANCE SUMMARY''],
        [Txt (rule_line CHR ''-'' 80)],
        [Txt newline, Str ''Carrier'', Txt '' '', Str ''Year'', Txt '' '', Str ''Tier'', Txt '' '',
         Str ''Shipments'', Txt '' '', Str ''Discount''],
        [Str (rule_line CHR ''-'' 15), Txt '' '', Str (rule_line CHR ''-'' 8), Txt '' '',
         Str (rule_line CHR ''-'' 8), Txt '' '', Str (rule_line CHR ''-'' 15), Txt '' '',
         Str (rule_line CHR ''-'' 12)]])
    (io_then (io_for [(carrier, year). carrier \<leftarrow> carriers, year \<leftarrow> py_range num_years]
                (carrier_performance_row vars varValue destinations
                   (length tier_min_quantity) discount_rate))
       (print [Txt (newline @ rule_line CHR ''='' 80 @ newline)]))))))"

definition print_solution ::
  "tvar LpProblem \<Rightarrow> int \<Rightarrow> (tvar \<Rightarrow> rat option) \<Rightarrow> int \<Rightarrow> string list \<Rightarrow> string list \<Rightarrow>
   (string \<rightharpoonup> rat) list \<Rightarrow> int list \<Rightarrow> (string \<rightharpoonup> rat list) \<Rightarrow> unit io" where
  "print_solution problem status_code varValue num_years carriers destinations shipment_target
     tier_min_quantity discount_rate =
     io_then (prints
       [[Txt (newline @ rule_line CHR ''='' 80)],
        [Txt ''SHIPMENT OPTIMIZATION RESULTS''],
        [Txt (rule_line CHR ''='' 80)]])
    (io_bind (io_lift (dict_get LpStatus status_code)) (\<lambda>status_name.
     io_then (print [Txt (newline @ ''Solver Status: ''), Str status_name, Txt '' (code: '',
                     Num (of_int status_code), Txt '')''])
       (if status_code = LpStatusOptimal
        then io_then (case objective_value problem varValue of
                        None \<Rightarrow> io_lift (Inl TypeError)
                      | Some c \<Rightarrow> print [Txt ''Optimal Total Cost: $'', Num c])
               (optimal_report (variables problem) varValue num_years carriers destinations
                  shipment_target tier_min_quantity discount_rate)
        else if status_code = LpStatusInfeasible
        then infeasible_report num_years carriers destinations shipment_target tier_min_quantity
        else if status_code = LpStatusUnbounded then unbounded_report
        else if status_code = LpStatusNotSolved then not_solved_report
        else if status_code = - 3 then undefined_report
        else unknown_report status_code (objective_value problem varValue))))"

subsection \<open>\<open>print_solution\<close> of \<open>src/warehouse_shipments.py\<close>\<close>

text \<open>
  The string methods the extraction uses: \<open>startswith\<close>, \<open>replace(old, '')\<close> (every
  occurrence of a nonempty \<open>old\<close>, found from the left without overlap), \<open>split(sep)\<close>,
  and \<open>int\<close> of a float, which truncates towards zero.
\<close>

definition startswith :: "string \<Rightarrow> string \<Rightarrow> bool" where
  "startswith s pre = (take (length pre) s = pre)"

function str_remove :: "string \<Rightarrow> string \<Rightarrow> string" where
  "str_remove old s =
     (if old = [] \<or> s = [] then s
      else if startswith s old then str_remove old (drop (length old) s)
      else hd s # str_remove old (tl s))"
  by pat_completeness auto
termination
  by (relation "measure (\<lambda>(old, s). length s)") auto

fun split_on :: "char \<Rightarrow> string \<Rightarrow> string list" where
  "split_on sep [] = [[]]"
| "split_on sep (c # cs) =
     (if c = sep then [] # split_on sep cs
      else (case split_on sep cs of
              [] \<Rightarrow> [[c]]
            | part # parts \<Rightarrow> (c # part) # parts))"

definition py_int :: "rat \<Rightarrow> int" where
  "py_int x = (if x \<ge> 0 then floor x else ceiling x)"

definition get_or :: "('k \<rightharpoonup> 'v) \<Rightarrow> 'k \<Rightarrow> 'v \<Rightarrow> 'v" where
  "get_or m k d = (case m k of None \<Rightarrow> d | Some v \<Rightarrow> v)"

definition extract_step ::
  "(wvar \<Rightarrow> rat option) \<Rightarrow> wvar LpVariable \<Rightarrow>
   (string \<times> string \<rightharpoonup> int) \<times> (string \<rightharpoonup> int) \<Rightarrow>
   error + ((string \<times> string \<rightharpoonup> int) \<times> (string \<rightharpoonup> int))" where
  "extract_step varValue v acc =
     (case acc of (shipment_counts, warehouse_usage) \<Rightarrow>
        if startswith (vname v) ''shipment_count_''
        then bind_err (list_get (split_on CHR ''_'' (str_remove ''shipment_count_'' (vname v))) 0)
               (\<lambda>i.
             bind_err (list_get (split_on CHR ''_'' (str_remove ''shipment_count_'' (vname v))) 1)
               (\<lambda>j.
               case varValue (ident v) of
                 None \<Rightarrow> Inl TypeError
               | Some x \<Rightarrow> Inr (shipment_counts((i, j) \<mapsto> py_int x), warehouse_usage)))
        else if startswith (vname v) ''warehouse_usage_''
        then (case varValue (ident v) of
                None \<Rightarrow> Inl TypeError
              | Some x \<Rightarrow>
                  Inr (shipment_counts,
                       warehouse_usage(str_remove ''warehouse_usage_'' (vname v) \<mapsto> py_int x)))
        else Inr (shipment_counts, warehouse_usage))"

definition extract_solution ::
  "wvar LpProblem \<Rightarrow> (wvar \<Rightarrow> rat option) \<Rightarrow>
   error + ((string \<times> string \<rightharpoonup> int) \<times> (string \<rightharpoonup> int))" where
  "extract_solution problem varValue =
     fold_err (extract_step varValue) (variables problem) (Map.empty, Map.empty)"

definition rule76 :: line where
  "rule76 = [Txt (''  '' @ rule_line CHR ''-'' 76)]"

definition pct_of :: "int \<Rightarrow> int \<Rightarrow> rat" where
  "pct_of part whole = (if whole > 0 then of_int part / of_int whole * 100 else 0)"

definition warehouse_usage_row ::
  "(string \<rightharpoonup> int) \<Rightarrow> (string \<rightharpoonup> rat) \<Rightarrow> string \<Rightarrow> rat \<Rightarrow> rat io" where
  "warehouse_usage_row warehouse_usage warehouse_cost i fixed_cost_total =
     io_bind (io_lift (dict_get warehouse_cost i)) (\<lambda>wc.
     io_then (print [Txt ''  Warehouse '', Str i, Txt '': '',
                     Str (if get_or warehouse_usage i 0 = 1 then ''ACTIVE'' else ''INACTIVE''),
                     Txt ''  Fixed Cost: $'', Num (wc * of_int (get_or warehouse_usage i 0))])
       (io_return (fixed_cost_total + wc * of_int (get_or warehouse_usage i 0))))"

definition routing_row ::
  "(string \<times> string \<rightharpoonup> int) \<Rightarrow> (string \<rightharpoonup> (string \<rightharpoonup> rat)) \<Rightarrow> string \<times> string \<Rightarrow> rat \<Rightarrow> rat io" where
  "routing_row shipment_counts shipment_cost ij variable_cost_total =
     (case ij of (i, j) \<Rightarrow>
        if get_or shipment_counts (i, j) 0 > 0
        then io_bind (io_lift (bind_err (dict_get shipment_cost i) (\<lambda>costs. dict_get costs j)))
               (\<lambda>unit_cost.
             io_then (print [Txt ''  '', Str i, Txt '' -> '', Str j, Txt '' | '',
                             Num (of_int (get_or shipment_counts (i, j) 0)), Txt '' | $'',
                             Num unit_cost, Txt '' | $'',
                             Num (of_int (get_or shipment_counts (i, j) 0) * unit_cost)])
               (io_return (variable_cost_total
                           + of_int (get_or shipment_counts (i, j) 0) * unit_cost)))
        else io_return variable_cost_total)"

definition delivery_step ::
  "(string \<times> string \<rightharpoonup> int) \<Rightarrow> (string \<rightharpoonup> (string \<rightharpoonup> int)) \<Rightarrow> int \<Rightarrow> string \<times> string \<Rightarrow>
   int \<times> int \<times> int \<Rightarrow> error + (int \<times> int \<times> int)" where
  "delivery_step shipment_counts delivery_estimate target_delivery_days ij acc =
     (case (ij, acc) of ((i, j), (total_delivery_days, on_time_shipments, late_shipments)) \<Rightarrow>
        if get_or shipment_counts (i, j) 0 > 0
        then bind_err (dict_get delivery_estimate i) (\<lambda>ests.
             bind_err (dict_get ests j) (\<lambda>days.
               Inr (total_delivery_days + days * get_or shipment_counts (i, j) 0,
                    if days \<le> target_delivery_days
                    then on_time_shipments + get_or shipment_counts (i, j) 0
                    else on_time_shipments,
                    if days \<le> target_delivery_days then late_shipments
                    else late_shipments + get_or shipment_counts (i, j) 0)))
        else Inr (total_delivery_days, on_time_shipments, late_shipments))"

definition dest_delivery_row ::
  "(string \<times> string \<rightharpoonup> int) \<Rightarrow> string list \<Rightarrow> (string \<rightharpoonup> (string \<rightharpoonup> int)) \<Rightarrow> int \<Rightarrow>
   string \<Rightarrow> unit io" where
  "dest_delivery_row shipment_counts warehouses delivery_estimate target_delivery_days j =
     (if sum_list (map (\<lambda>i. get_or shipment_counts (i, j) 0) warehouses) > 0
      then io_bind (io_lift (traverse (\<lambda>i. bind_err (dict_get delivery_estimate i)
                                              (\<lambda>ests. dict_get ests j)) warehouses)) (\<lambda>days.
           io_bind (io_lift (traverse (\<lambda>i. bind_err (dict_get delivery_estimate i)
                                              (\<lambda>ests. dict_get ests j)) warehouses)) (\<lambda>days'.
             print [Txt ''  '', Str j, Txt '' | '',
                    Num (of_int (sum_list (map (\<lambda>(i, d). get_or shipment_counts (i, j) 0 * d)
                                             (zip warehouses days)))
                         / of_int (sum_list (map (\<lambda>i. get_or shipment_counts (i, j) 0)
                                               warehouses))),
                    Txt '' | '',
                    Num (of_int (sum_list (map (\<lambda>(i, d). get_or shipment_counts (i, j) 0)
                                             (filter (\<lambda>(i, d). d \<le> target_delivery_days)
                                                (zip warehouses days'))))),
                    Txt '' | '',
                    Num (of_int (sum_list (map (\<lambda>i. get_or shipment_counts (i, j) 0) warehouses)
                                 - sum_list (map (\<lambda>(i, d). get_or shipment_counts (i, j) 0)
                                               (filter (\<lambda>(i, d). d \<le> target_delivery_days)
                                                  (zip warehouses days'))))),
                    Txt '' | '',
                    Num (of_int (sum_list (map (\<lambda>i. get_or shipment_counts (i, j) 0) warehouses)
                                 - sum_list (map (\<lambda>(i, d). get_or shipment_counts (i, j) 0)
                                               (filter (\<lambda>(i, d). d \<le> target_delivery_days)
                                                  (zip warehouses days'))))
                         / of_int (sum_list (map (\<lambda>i. get_or shipment_counts (i, j) 0)
                                               warehouses)) * 100),
                    Txt ''%'']))
      else io_return ())"

definition warehouse_report ::
  "(string \<times> string \<rightharpoonup> int) \<Rightarrow> (string \<rightharpoonup> int) \<Rightarrow> string list \<Rightarrow> string list \<Rightarrow>
   (string \<rightharpoonup> int) \<Rightarrow> (string \<rightharpoonup> rat) \<Rightarrow> (string \<rightharpoonup> (string \<rightharpoonup> rat)) \<Rightarrow> int \<Rightarrow>
   (string \<rightharpoonup> (string \<rightharpoonup> int)) \<Rightarrow> unit io" where
  "warehouse_report shipment_counts warehouse_usage warehouses destinations target_distribution
     warehouse_cost shipment_cost target_delivery_days delivery_estimate =
     io_then (prints [[Txt ''WAREHOUSE USAGE:''], [Txt (rule_line CHR ''-'' 80)]])
    (io_bind (io_fold (warehouse_usage_row warehouse_usage warehouse_cost) warehouses 0)
       (\<lambda>fixed_cost_total.
     io_then (prints
       [[Txt ''  Total Fixed Costs: $'', Num fixed_cost_total, Txt newline],
        [Txt ''SHIPMENT ROUTING:''],
        [Txt (rule_line CHR ''-'' 80)],
        [Txt ''  '', Str ''From'', Txt '' -> '', Str ''To'', Txt '' | '', Str ''Shipments'',
         Txt '' | '', Str ''Unit Cost'', Txt '' | '', Str ''Total Cost''],
        rule76])
    (io_bind (io_fold (routing_row shipment_counts shipment_cost)
                (w_pairs warehouses destinations) 0) (\<lambda>variable_cost_total.
     io_then (prints
       [rule76,
        [Txt ''  '', Str ''Total Variable Costs:'', Txt '' $'', Num variable_cost_total,
         Txt newline],
        [Txt ''DESTINATION DISTRIBUTION:''],
        [Txt (rule_line CHR ''-'' 80)],
        [Txt ''  '', Str ''Destination'', Txt '' | '', Str ''Actual'', Txt '' | '', Str ''Target'',
         Txt '' | '', Str ''% of Total''],
        rule76])
    (io_then (io_for destinations (\<lambda>j.
       print [Txt ''  '', Str j, Txt '' | '',
              Num (of_int (sum_list (map (\<lambda>i. get_or shipment_counts (i, j) 0) warehouses))),
              Txt '' | '', Num (of_int (get_or target_distribution j 0)), Txt '' | '',
              Num (pct_of (sum_list (map (\<lambda>i. get_or shipment_counts (i, j) 0) warehouses))
                     (dict_sum target_distribution)),
              Txt ''%'']))
    (io_then (prints
       [rule76,
        [Txt ''  '', Str ''TOTAL'', Txt '' | '', Num (of_int (dict_sum target_distribution)),
         Txt '' | '', Num (of_int (dict_sum target_distribution)), Txt '' | '', Num 100,
         Txt (''%'' @ newline)],
        [Txt ''WAREHOUSE DISTRIBUTION:''],
        [Txt (rule_line CHR ''-'' 80)],
        [Txt ''  '', Str ''Warehouse'', Txt '' | '', Str ''Shipments'', Txt '' | '',
         Str ''% of Total''],
        rule76])
    (io_then (io_for warehouses (\<lambda>i.
       print [Txt ''  '', Str i, Txt '' | '',
              Num (of_int (sum_list (map (\<lambda>j. get_or shipment_counts (i, j) 0) destinations))),
              Txt '' | '',
              Num (pct_of (sum_list (map (\<lambda>j. get_or shipment_counts (i, j) 0) destinations))
                     (dict_sum target_distribution)),
              Txt ''%'']))
    (io_then (prints
       [rule76,
        [Txt ''  '', Str ''TOTAL'', Txt '' | '', Num (of_int (dict_sum target_distribution)),
         Txt '' | '', Num 100, Txt (''%'' @ newline)],
        [Txt ''DELIVERY TIME STATISTICS:''],
        [Txt (rule_line CHR ''-'' 80)],
        [Txt ''  Target Delivery Days: '', Num (of_int target_delivery_days), Txt newline]])
    (io_bind (io_lift (fold_err (delivery_step shipment_counts delivery_estimate
                                   target_delivery_days)
                         (w_pairs warehouses destinations) (0, 0, 0)))
       (\<lambda>(total_delivery_days, on_time_shipments, late_shipments).
     io_then (prints
       [[Txt ''  Overall:''],
        [Txt ''    Average Delivery Time: '',
         Num (if dict_sum target_distribution > 0
              then of_int total_delivery_days / of_int (dict_sum target_distribution) else 0),
         Txt '' days''],
        [Txt ''    On-Time Shipments:     '', Num (of_int on_time_shipments), Txt '' ('',
         Num (pct_of on_time_shipments (dict_sum target_distribution)), Txt ''%)''],
        [Txt ''    Late Shipments:        '', Num (of_int late_shipments), Txt '' ('',
         Num (pct_of late_shipments (dict_sum target_distribution)), Txt (''%)'' @ newline)],
        [Txt ''  '', Str ''Destination'', Txt '' | '', Str ''Avg Days'', Txt '' | '', Str ''On-Time'',
         Txt '' | '', Str ''Late'', Txt '' | '', Str ''Late %''],
        rule76])
    (io_then (io_for destinations
                (dest_delivery_row shipment_counts warehouses delivery_estimate
                   target_delivery_days))
       (print [Txt (rule_line CHR ''='' 80)]))))))))))))"

definition print_solution_warehouse ::
  "wvar LpProblem \<Rightarrow> int \<Rightarrow> (wvar \<Rightarrow> rat option) \<Rightarrow> string list \<Rightarrow> string list \<Rightarrow>
   (string \<rightharpoonup> int) \<Rightarrow> (string \<rightharpoonup> rat) \<Rightarrow> (string \<rightharpoonup> (string \<rightharpoonup> rat)) \<Rightarrow> int \<Rightarrow>
   (string \<rightharpoonup> (string \<rightharpoonup> int)) \<Rightarrow> unit io" where
  "print_solution_warehouse problem status varValue warehouses destinations target_distribution
     warehouse_cost shipment_cost target_delivery_days delivery_estimate =
     (if status \<noteq> LpStatusOptimal
      then io_bind (io_lift (dict_get LpStatus status)) (\<lambda>status_name.
           io_then (print [Txt ''Solution Status: '', Str status_name])
             (print [Txt ''No optimal solution found.'']))
      else io_then (prints
             [[Txt (rule_line CHR ''='' 80)],
              [Txt ''SHIPMENT OPTIMIZATION SOLUTION''],
              [Txt (rule_line CHR ''='' 80)]])
          (io_bind (io_lift (dict_get LpStatus status)) (\<lambda>status_name.
           io_then (print [Txt ''Status: '', Str status_name])
          (io_then (case objective_value problem varValue of
                      None \<Rightarrow> io_lift (Inl TypeError)
                    | Some c \<Rightarrow> print [Txt ''Total Cost: $'', Num c, Txt newline])
          (io_bind (io_lift (extract_solution problem varValue))
             (\<lambda>(shipment_counts, warehouse_usage).
                warehouse_report shipment_counts warehouse_usage warehouses destinations
                  target_distribution warehouse_cost shipment_cost target_delivery_days
                  delivery_estimate))))))"

section \<open>Properties\<close>

text \<open>
  C9. For every input, \<open>optimize_shipments\<close> of \<open>src/carrier_earned_discount.py\<close> and
  \<open>optimize_shipments\<close> of \<open>src/problems/carrier_earned_discount/main.py\<close> give the same
  result: the same exception, or the same model (variables with their names, bounds and
  categories, objective, constraints in the same order under the same names).
\<close>

theorem optimize_shipments_same_model:
  "optimize_shipments_problems num_years carriers destinations shipment_target shipment_cost
     tier_min_quantity discount_rate =
   optimize_shipments num_years carriers destinations shipment_target shipment_cost
     tier_min_quantity discount_rate"
  unfolding optimize_shipments_problems_def optimize_shipments_def ship_keys_def make_dict_def
    new_ship_var_def objective_term_def carrier_constraints_def tier_constraints_def
    gate_constraint_def target_constraint_def tier_flag_def ship_name_def tier_name_def
  by (rule refl)

end
